theory Spec2Isabelle
  imports Complex_Main "HOL-Library.Log_Nat"
begin

section \<open>JavaScript numbers in bench.js\<close>

text \<open>
  A JavaScript Number is a double or \<open>NaN\<close>. The numbers that bench.js stores
  (timestamps, parsed integers, their differences) are integer-valued doubles, kept
  here as \<open>int\<close>; every arithmetic operation returns the exact result rounded to the
  nearest double, ties to the even significand. The exponent range is not bounded in this
  model: there is no overflow to \<open>Infinity\<close> (it would take a number of more than 308
  digits) and there are no subnormals. Two expressions of bench.js have fractional values,
  \<open>(p / 100) * sorted.length\<close> in \<open>pct\<close> and the mean in \<open>printSummary\<close>; they
  are computed on rationals with the same rounding.
\<close>

datatype jsnum = Num int | NaN

definition pow2 :: "int \<Rightarrow> rat" where
  "pow2 e = (if 0 \<le> e then 2 ^ nat e else 1 / 2 ^ nat (- e))"

text \<open>The binary exponent of a positive rational: \<open>pow2 (expo x) \<le> x < pow2 (expo x + 1)\<close>.\<close>

definition expo :: "rat \<Rightarrow> int" where
  "expo x = (if 1 \<le> x then bitlen \<lfloor>x\<rfloor> - 1 else - bitlen (\<lceil>1 / x\<rceil> - 1))"

definition round_even :: "rat \<Rightarrow> int" where
  "round_even q =
     (let f = \<lfloor>q\<rfloor>; r = q - of_int f
      in if r < 1 / 2 then f
         else if 1 / 2 < r then f + 1
         else if even f then f else f + 1)"

text \<open>Rounding to a 53-bit significand.\<close>

definition fl_pos :: "rat \<Rightarrow> rat" where
  "fl_pos x = (let u = pow2 (expo x - 52) in of_int (round_even (x / u)) * u)"

definition fl :: "rat \<Rightarrow> rat" where
  "fl x = (if x = 0 then 0 else if 0 < x then fl_pos x else - fl_pos (- x))"

text \<open>
  The double nearest to an integer; it is an integer again (\<open>to_double_exact\<close> and
  \<open>to_double_sign\<close> below give what the proofs use: integers below \<open>2 ^ 53\<close> in
  magnitude are kept, and the sign is always kept).
\<close>

definition to_double :: "int \<Rightarrow> int" where
  "to_double n = \<lfloor>fl (of_int n)\<rfloor>"

text \<open>\<open>a - b\<close> and \<open>a + b\<close> on Numbers.\<close>

fun js_sub :: "jsnum \<Rightarrow> jsnum \<Rightarrow> jsnum" where
  "js_sub (Num a) (Num b) = Num (to_double (a - b))"
| "js_sub a b = NaN"

fun js_add :: "jsnum \<Rightarrow> jsnum \<Rightarrow> jsnum" where
  "js_add (Num a) (Num b) = Num (to_double (a + b))"
| "js_add a b = NaN"

section \<open>JavaScript values that reach bench.js\<close>

text \<open>
  The payload of a change notification is decoded JSON: absent fields read as
  \<open>undefined\<close>, and the values are null, booleans, numbers, strings, arrays and
  objects (an object is the list of its own properties, read through \<open>map_of\<close>).
  Numbers are integers here, as a count of milliseconds is. A string is the list of its
  code units, which are below 256 here.
\<close>

datatype jsval =
    JUndefined
  | JNull
  | JBool bool
  | JNum jsnum
  | JStr string
  | JArr "jsval list"
  | JObj "(string \<times> jsval) list"

text \<open>Truthiness, as tested by \<open>&&\<close>, \<open>||\<close> and \<open>if\<close>.\<close>

fun truthy :: "jsval \<Rightarrow> bool" where
  "truthy JUndefined = False"
| "truthy JNull = False"
| "truthy (JBool b) = b"
| "truthy (JNum (Num i)) = (i \<noteq> 0)"
| "truthy (JNum NaN) = False"
| "truthy (JStr s) = (s \<noteq> [])"
| "truthy (JArr vs) = True"
| "truthy (JObj kvs) = True"

text \<open>
  Property read \<open>v.k\<close> on a value that is neither null nor undefined. None of the
  names read by bench.js (\<open>new\<close>, \<open>id\<close>, \<open>_bench_sent_ts\<close>) exists on an array or
  on the prototypes of the primitive wrappers, so these yield \<open>undefined\<close>.
\<close>

fun get_prop :: "jsval \<Rightarrow> string \<Rightarrow> jsval" where
  "get_prop (JObj kvs) k = (case map_of kvs k of None \<Rightarrow> JUndefined | Some v \<Rightarrow> v)"
| "get_prop v k = JUndefined"

text \<open>Optional chaining \<open>v?.k\<close>: undefined on null and undefined.\<close>

fun opt_chain :: "jsval \<Rightarrow> string \<Rightarrow> jsval" where
  "opt_chain JUndefined k = JUndefined"
| "opt_chain JNull k = JUndefined"
| "opt_chain v k = get_prop v k"

subsection \<open>String conversion and \<open>parseInt\<close>\<close>

datatype exn = TypeError | RangeError | WriteFailed

definition digit_char :: "nat \<Rightarrow> char" where
  "digit_char d = ''0123456789'' ! (d mod 10)"

fun show_nat :: "nat \<Rightarrow> string" where
  "show_nat n = (if n < 10 then [digit_char n] else show_nat (n div 10) @ [digit_char (n mod 10)])"

declare show_nat.simps [simp del]

definition show_int :: "int \<Rightarrow> string" where
  "show_int i = (if i < 0 then CHR ''-'' # show_nat (nat (- i)) else show_nat (nat i))"

text \<open>
  \<open>ToString\<close>. An integer is written in plain decimal digits, which is what JavaScript
  does below \<open>10 ^ 21\<close> (above \<open>2 ^ 53\<close> its last digits may differ, and
  \<open>parseInt\<close> reads the same double back). An array is the join of its elements by commas, with the empty
  string for null and undefined elements. An object is converted by its \<open>toString\<close>
  method: a decoded object inherits the one that returns \<open>[object Object]\<close>, unless it
  has an own property of that name, which is never a function; then the conversion finds
  no method that returns a primitive and throws a TypeError.
\<close>

fun to_string :: "jsval \<Rightarrow> exn + string"
  and join_strings :: "jsval list \<Rightarrow> exn + string" where
  "to_string JUndefined = Inr ''undefined''"
| "to_string JNull = Inr ''null''"
| "to_string (JBool b) = Inr (if b then ''true'' else ''false'')"
| "to_string (JNum (Num i)) = Inr (show_int i)"
| "to_string (JNum NaN) = Inr ''NaN''"
| "to_string (JStr s) = Inr s"
| "to_string (JArr vs) = join_strings vs"
| "to_string (JObj kvs) =
     (if map_of kvs ''toString'' = None then Inr ''[object Object]'' else Inl TypeError)"
| "join_strings [] = Inr []"
| "join_strings (v # vs) =
     (case (if v = JUndefined \<or> v = JNull then Inr [] else to_string v) of
        Inl e \<Rightarrow> Inl e
      | Inr s \<Rightarrow>
          if vs = [] then Inr s
          else (case join_strings vs of
                  Inl e \<Rightarrow> Inl e
                | Inr t \<Rightarrow> Inr (s @ '','' @ t)))"

text \<open>
  White space among the code units below 256: tab, line feed, vertical tab, form feed,
  carriage return, space and the no-break space.
\<close>

definition is_ws :: "char \<Rightarrow> bool" where
  "is_ws c \<longleftrightarrow>
     c \<in> set [CHR 0x09, CHR 0x0A, CHR 0x0B, CHR 0x0C, CHR 0x0D, CHR 0x20, CHR 0xA0]"

definition digit_val :: "char \<Rightarrow> nat option" where
  "digit_val c = map_of
     [(CHR ''0'', 0), (CHR ''1'', 1), (CHR ''2'', 2), (CHR ''3'', 3), (CHR ''4'', 4),
      (CHR ''5'', 5), (CHR ''6'', 6), (CHR ''7'', 7), (CHR ''8'', 8), (CHR ''9'', 9)] c"

definition is_digit :: "char \<Rightarrow> bool" where
  "is_digit c \<longleftrightarrow> digit_val c \<noteq> None"

definition digits_value :: "string \<Rightarrow> int" where
  "digits_value ds =
     foldl (\<lambda>a c. 10 * a + (case digit_val c of Some d \<Rightarrow> int d | None \<Rightarrow> 0)) 0 ds"

text \<open>
  \<open>parseInt(s, 10)\<close> on a string: skip leading white space, read an optional sign, take
  the longest run of decimal digits; no digit at all gives \<open>NaN\<close>, anything after the
  digits is ignored. The result is the double nearest to the integer read (for a run of
  more than 20 digits the language lets an engine round after the 20th digit first; the
  exact rounding is taken).
\<close>

definition parseInt_str :: "string \<Rightarrow> jsnum" where
  "parseInt_str s =
     (let t = dropWhile is_ws s;
          neg = (t \<noteq> [] \<and> hd t = CHR ''-'');
          u = (if t \<noteq> [] \<and> (hd t = CHR ''+'' \<or> hd t = CHR ''-'') then tl t else t);
          z = takeWhile is_digit u
      in if z = [] then NaN
         else Num (to_double ((if neg then - 1 else 1) * digits_value z)))"

text \<open>\<open>parseInt(v, 10)\<close> converts its argument to a string first, which may throw.\<close>

definition parseInt :: "jsval \<Rightarrow> exn + jsnum" where
  "parseInt v = (case to_string v of Inl e \<Rightarrow> Inl e | Inr s \<Rightarrow> Inr (parseInt_str s))"

section \<open>The shared statistics and the notification handler\<close>

record stats =
  sent :: nat
  received :: nat
  latencies :: "jsnum list"
  errors :: nat

definition stats0 :: stats where
  "stats0 = \<lparr>sent = 0, received = 0, latencies = [], errors = 0\<rparr>"

definition makeId :: "nat \<Rightarrow> string" where
  "makeId i = ''client-'' @ show_nat i"

text \<open>
  The body of the \<open>try\<close> block of the \<open>postgres_changes\<close> callback of the client
  whose identity is \<open>myId\<close>, at clock reading \<open>now\<close>. The one step that can throw is
  \<open>parseInt\<close>, before anything is written to the statistics.
\<close>

definition handler_body :: "string \<Rightarrow> int \<Rightarrow> jsval \<Rightarrow> stats \<Rightarrow> exn + stats" where
  "handler_body myId now payload st =
     (let rec = opt_chain payload ''new''
      in if truthy rec \<and> get_prop rec ''id'' = JStr myId \<and> truthy (get_prop rec ''_bench_sent_ts'')
         then
           (case parseInt (get_prop rec ''_bench_sent_ts'') of
              Inl e \<Rightarrow> Inl e
            | Inr sendTs \<Rightarrow>
                (let rtt = js_sub (Num now) sendTs
                 in Inr (st\<lparr>received := received st + 1, latencies := latencies st @ [rtt]\<rparr>)))
         else Inr st)"

text \<open>The callback: the body under its \<open>catch\<close>, which counts an error.\<close>

definition on_change :: "string \<Rightarrow> int \<Rightarrow> jsval \<Rightarrow> stats \<Rightarrow> stats" where
  "on_change myId now payload st =
     (case handler_body myId now payload st of
        Inl e \<Rightarrow> st\<lparr>errors := errors st + 1\<rparr>
      | Inr st' \<Rightarrow> st')"

section \<open>Start-up and the periodic write loop\<close>

text \<open>\<open>a || b\<close>.\<close>

definition js_or :: "jsval \<Rightarrow> jsval \<Rightarrow> jsval" where
  "js_or a b = (if truthy a then a else b)"

text \<open>
  \<open>CLIENT_COUNT\<close> from the third command-line argument, which is a string or, when
  omitted, \<open>undefined\<close>; on these \<open>parseInt\<close> does not throw.
\<close>

definition CLIENT_COUNT :: "jsval \<Rightarrow> exn + jsnum" where
  "CLIENT_COUNT arg = parseInt (js_or arg (JStr ''1000''))"

text \<open>
  What an awaited \<open>upsert\<close> does is decided by the backend and by the client library.
  The promise resolves after a write that was stored (\<open>Resolved\<close>); it also resolves
  after a write that failed, to a result whose \<open>error\<close> field is set
  (\<open>ResolvedWithError\<close>: the write interface returns failure as a value, and
  bench.js does not ask the client to throw instead); or it rejects (\<open>Rejected\<close>),
  which is an exception at the \<open>await\<close>. The value of a resolved promise is whether
  the \<open>error\<close> field is set.
\<close>

datatype outcome = Resolved | ResolvedWithError | Rejected

definition await_upsert :: "outcome \<Rightarrow> exn + bool" where
  "await_upsert oc =
     (case oc of
        Resolved \<Rightarrow> Inr False
      | ResolvedWithError \<Rightarrow> Inr True
      | Rejected \<Rightarrow> Inl WriteFailed)"

text \<open>
  The initial upsert of a client, under its \<open>try\<close>/\<open>catch\<close>. The awaited value is
  not read.
\<close>

definition init_step :: "outcome \<Rightarrow> stats \<Rightarrow> stats" where
  "init_step oc st =
     (case await_upsert oc of
        Inl e \<Rightarrow> st\<lparr>errors := errors st + 1\<rparr>
      | Inr r \<Rightarrow> st)"

text \<open>
  \<open>new Array(n)\<close> throws a RangeError unless \<open>n\<close> is an integer from \<open>0\<close> to
  \<open>2 ^ 32 - 1\<close>; \<open>run\<close> does not catch it, so the process exits before any client exists.
\<close>

definition new_Array :: "jsnum \<Rightarrow> exn + nat" where
  "new_Array n =
     (case n of
        NaN \<Rightarrow> Inl RangeError
      | Num i \<Rightarrow> if 0 \<le> i \<and> i < 2 ^ 32 then Inr (nat i) else Inl RangeError)"

text \<open>
  The client-creation loop of \<open>run\<close>; \<open>ocs i\<close> is the outcome of the initial upsert of
  client \<open>i\<close>.
\<close>

definition startup :: "jsnum \<Rightarrow> (nat \<Rightarrow> outcome) \<Rightarrow> stats \<Rightarrow> exn + stats" where
  "startup count ocs st =
     (case new_Array count of
        Inl e \<Rightarrow> Inl e
      | Inr n \<Rightarrow> Inr (fold (\<lambda>i. init_step (ocs i)) [0..<n] st))"

text \<open>
  One iteration of the write loop: the body of the \<open>try\<close> awaits the upsert and then
  increments \<open>sent\<close>, without reading the awaited value; the \<open>catch\<close> counts an error.
\<close>

definition write_body :: "outcome \<Rightarrow> stats \<Rightarrow> exn + stats" where
  "write_body oc st =
     (case await_upsert oc of
        Inl e \<Rightarrow> Inl e
      | Inr r \<Rightarrow> Inr (st\<lparr>sent := sent st + 1\<rparr>))"

definition write_step :: "outcome \<Rightarrow> stats \<Rightarrow> stats" where
  "write_step oc st =
     (case write_body oc st of
        Inl e \<Rightarrow> st\<lparr>errors := errors st + 1\<rparr>
      | Inr st' \<Rightarrow> st')"

text \<open>The \<open>for\<close> loop of a tick over the \<open>n\<close> clients.\<close>

definition tick_loop :: "nat \<Rightarrow> (nat \<Rightarrow> outcome) \<Rightarrow> stats \<Rightarrow> stats" where
  "tick_loop n ocs st = fold (\<lambda>i. write_step (ocs i)) [0..<n] st"

text \<open>
  The test after the loop, \<open>stats.sent % (CLIENT_COUNT * 5) === 0\<close>. The remainder by
  zero is \<open>NaN\<close>, which is not \<open>0\<close>.
\<close>

definition report_due :: "nat \<Rightarrow> stats \<Rightarrow> bool" where
  "report_due n st \<longleftrightarrow> n * 5 \<noteq> 0 \<and> sent st mod (n * 5) = 0"

section \<open>Percentile and summary\<close>

text \<open>
  \<open>sort((a,b)=>a-b)\<close>. The comparator orders \<open>a\<close> after \<open>b\<close> when \<open>a - b\<close> is
  positive; a \<open>NaN\<close> difference counts as \<open>0\<close>. On numbers the comparator is a
  consistent order and the result is the ascending list, whatever algorithm the engine
  runs (\<open>js_sort_Num\<close> below). With a \<open>NaN\<close> among the elements the comparator is
  inconsistent and the language leaves the order to the engine; the stable insertion
  order is taken here.
\<close>

fun comes_after :: "jsnum \<Rightarrow> jsnum \<Rightarrow> bool" where
  "comes_after a b = (case js_sub a b of Num d \<Rightarrow> 0 < d | NaN \<Rightarrow> False)"

fun js_insort :: "jsnum \<Rightarrow> jsnum list \<Rightarrow> jsnum list" where
  "js_insort x [] = [x]"
| "js_insort x (y # ys) = (if comes_after x y then y # js_insort x ys else x # y # ys)"

definition js_sort :: "jsnum list \<Rightarrow> jsnum list" where
  "js_sort xs = foldr js_insort xs []"

text \<open>
  \<open>Math.floor((p/100) * n)\<close> for a percentile \<open>p\<close> and a length \<open>n\<close>, both
  non-negative integers: a double division, a double multiplication, then the floor.
\<close>

definition pct_index :: "nat \<Rightarrow> nat \<Rightarrow> nat" where
  "pct_index p n = nat \<lfloor>fl (fl (of_nat p / 100) * of_nat n)\<rfloor>"

definition pct :: "jsnum list \<Rightarrow> nat \<Rightarrow> jsnum" where
  "pct arr p =
     (if arr = [] then Num 0
      else let sorted = js_sort arr;
               idx = pct_index p (length sorted)
           in sorted ! min idx (length sorted - 1))"

text \<open>
  The same function on a store of arrays, where an array is known by its address: \<open>arr\<close>
  is an address, \<open>Array.from\<close> allocates a new array and \<open>sort\<close> rearranges the array
  it is called on. A reference of the program always names an allocated array; the result
  is \<open>None\<close> on any other address.
\<close>

type_synonym heap = "jsnum list list"

definition Array_from :: "heap \<Rightarrow> nat \<Rightarrow> heap \<times> nat" where
  "Array_from h a = (h @ [h ! a], length h)"

definition sort_in_place :: "heap \<Rightarrow> nat \<Rightarrow> heap" where
  "sort_in_place h a = h[a := js_sort (h ! a)]"

definition pct_heap :: "heap \<Rightarrow> nat \<Rightarrow> nat \<Rightarrow> (jsnum \<times> heap) option" where
  "pct_heap h arr p =
     (if \<not> arr < length h then None
      else if h ! arr = [] then Some (Num 0, h)
      else let (h1, sorted) = Array_from h arr;
               h2 = sort_in_place h1 sorted;
               idx = pct_index p (length (h2 ! sorted))
           in Some ((h2 ! sorted) ! min idx (length (h2 ! sorted) - 1), h2))"

text \<open>The values interpolated into the summary line: a string or a number.\<close>

datatype cell = Txt string | Nmb jsnum

fun cell_string :: "cell \<Rightarrow> string" where
  "cell_string (Txt s) = s"
| "cell_string (Nmb (Num i)) = show_int i"
| "cell_string (Nmb NaN) = ''NaN''"

fun js_min :: "jsnum \<Rightarrow> jsnum \<Rightarrow> jsnum" where
  "js_min (Num a) (Num b) = Num (min a b)"
| "js_min a b = NaN"

fun js_max :: "jsnum \<Rightarrow> jsnum \<Rightarrow> jsnum" where
  "js_max (Num a) (Num b) = Num (max a b)"
| "js_max a b = NaN"

text \<open>
  \<open>x.toFixed(1)\<close> on the double \<open>x\<close>: the sign, then the nearest number of tenths of
  the magnitude (the larger one on a tie).
\<close>

definition toFixed1 :: "rat \<Rightarrow> string" where
  "toFixed1 x =
     (let n = nat \<lfloor>\<bar>x\<bar> * 10 + 1 / 2\<rfloor>
      in (if x < 0 then [CHR ''-''] else []) @ show_nat (n div 10) @ [CHR ''.''] @ show_nat (n mod 10))"

definition summary_avg :: "jsnum list \<Rightarrow> cell" where
  "summary_avg lat =
     (if lat \<noteq> []
      then (case foldl js_add (Num 0) lat of
              NaN \<Rightarrow> Txt ''NaN''
            | Num s \<Rightarrow> Txt (toFixed1 (fl (of_int s / of_nat (length lat)))))
      else Txt ''-'')"

definition summary_min :: "jsnum list \<Rightarrow> cell" where
  "summary_min lat = (if lat \<noteq> [] then Nmb (foldl js_min (hd lat) (tl lat)) else Txt ''-'')"

definition summary_max :: "jsnum list \<Rightarrow> cell" where
  "summary_max lat = (if lat \<noteq> [] then Nmb (foldl js_max (hd lat) (tl lat)) else Txt ''-'')"

definition summary_p95 :: "jsnum list \<Rightarrow> cell" where
  "summary_p95 lat = Nmb (pct lat 95)"

text \<open>The line written by \<open>printSummary\<close>.\<close>

definition printSummary :: "stats \<Rightarrow> string" where
  "printSummary st =
     (let lat = latencies st
      in ''SENT:'' @ show_nat (sent st) @ '' RECV:'' @ show_nat (received st)
         @ '' ERR:'' @ show_nat (errors st)
         @ '' | avg:'' @ cell_string (summary_avg lat)
         @ ''ms min:'' @ cell_string (summary_min lat)
         @ ''ms max:'' @ cell_string (summary_max lat)
         @ ''ms p95:'' @ cell_string (summary_p95 lat)
         @ ''ms samples:'' @ show_nat (length lat))"

text \<open>
  One firing of the ten-second timer: the write loop, then the test for an immediate
  summary. The second component is what the firing prints.
\<close>

definition tick :: "nat \<Rightarrow> (nat \<Rightarrow> outcome) \<Rightarrow> stats \<Rightarrow> stats \<times> string list" where
  "tick n ocs st =
     (let st' = tick_loop n ocs st
      in (st', if report_due n st' then [printSummary st'] else []))"

section \<open>Runs of the harness\<close>

text \<open>
  Between two suspension points the event loop runs one of these to completion: a
  notification callback of some client, the initial upsert of a client returning, a write
  of the loop returning, or a summary being printed (which reads the statistics only).
  A run is any sequence of them from the initial statistics.
\<close>

datatype operation =
    Notification string int jsval
  | InitialUpsert outcome
  | PeriodicUpsert outcome
  | Summary

fun step :: "operation \<Rightarrow> stats \<Rightarrow> stats" where
  "step (Notification myId now payload) st = on_change myId now payload st"
| "step (InitialUpsert oc) st = init_step oc st"
| "step (PeriodicUpsert oc) st = write_step oc st"
| "step Summary st = st"

definition exec :: "operation list \<Rightarrow> stats" where
  "exec ops = fold step ops stats0"

text \<open>The statistics are balanced when every received event has its sample.\<close>

definition balanced :: "stats \<Rightarrow> bool" where
  "balanced st \<longleftrightarrow> received st = length (latencies st)"

section \<open>Rounding to double\<close>

lemma pow2_powi: "pow2 e = 2 powi e"
  by (simp add: pow2_def power_int_def field_simps)

lemma pow2_pos: "0 < pow2 e"
  by (simp add: pow2_powi)

lemma pow2_add: "pow2 (a + b) = pow2 a * pow2 b"
  by (simp add: pow2_powi power_int_add)

lemma pow2_strict_mono: "a < b \<Longrightarrow> pow2 a < pow2 b"
  by (simp add: pow2_powi power_int_strict_increasing)

lemma pow2_mono: "a \<le> b \<Longrightarrow> pow2 a \<le> pow2 b"
  by (simp add: pow2_powi power_int_increasing)

lemma pow2_less_imp: "pow2 a < pow2 b \<Longrightarrow> a < b"
  using pow2_mono [of b a] by (cases "a < b") auto

lemma rat_of_int_mono: "(a::int) \<le> b \<Longrightarrow> (of_int a :: rat) \<le> of_int b"
  by simp

lemma pow2_nat: "0 \<le> e \<Longrightarrow> pow2 e = 2 ^ nat e"
  by (simp add: pow2_def)

lemma pow2_neg: "e \<le> 0 \<Longrightarrow> pow2 e * 2 ^ nat (- e) = 1"
  by (simp add: pow2_def)

lemma expo_bounds:
  assumes "0 < x"
  shows "pow2 (expo x) \<le> x \<and> x < pow2 (expo x + 1)"
proof (cases "1 \<le> x")
  case True
  define m where "m = \<lfloor>x\<rfloor>"
  have m1: "1 \<le> m" using True by (simp add: m_def)
  then have mpos: "0 < m" by simp
  have b1: "1 \<le> bitlen m" using mpos by (simp add: bitlen_alt_def)
  have e: "expo x = bitlen m - 1" using True by (simp add: expo_def m_def)
  from bitlen_bounds [OF mpos]
  have lo: "2 ^ nat (bitlen m - 1) \<le> m" and hi: "m < 2 ^ nat (bitlen m)" by auto
  have "(of_int (2 ^ nat (bitlen m - 1)) :: rat) \<le> of_int m"
    using lo by (simp only: of_int_le_iff)
  also have "(of_int m :: rat) \<le> x" by (simp add: m_def)
  finally have A: "pow2 (expo x) \<le> x" using b1 by (simp add: e pow2_nat)
  have "m + 1 \<le> 2 ^ nat (bitlen m)" using hi by simp
  then have "(of_int (m + 1) :: rat) \<le> of_int (2 ^ nat (bitlen m))"
    by (simp only: of_int_le_iff)
  moreover have "x < of_int (m + 1)" unfolding m_def by linarith
  ultimately have "x < of_int (2 ^ nat (bitlen m))" by linarith
  then have B: "x < pow2 (expo x + 1)" using b1 by (simp add: e pow2_nat)
  from A B show ?thesis ..
next
  case False
  then have x1: "x < 1" by simp
  define y where "y = 1 / x"
  define m where "m = \<lceil>y\<rceil> - 1"
  have y1: "1 < y" using assms x1 by (simp add: y_def)
  have my: "of_int m < y" "y \<le> of_int m + 1"
    unfolding m_def by (linarith, simp add: le_of_int_ceiling)
  have mpos: "0 < m" using y1 my(2) by linarith
  have b1: "1 \<le> bitlen m" using mpos by (simp add: bitlen_alt_def)
  have e: "expo x = - bitlen m" using False by (simp add: expo_def m_def y_def)
  from bitlen_bounds [OF mpos]
  have lo: "2 ^ nat (bitlen m - 1) \<le> m" and hi: "m < 2 ^ nat (bitlen m)" by auto
  have "m + 1 \<le> 2 ^ nat (bitlen m)" using hi by simp
  then have "(of_int (m + 1) :: rat) \<le> of_int (2 ^ nat (bitlen m))"
    by (simp only: of_int_le_iff)
  then have "y \<le> 2 ^ nat (bitlen m)" using my(2) by simp
  then have "1 / x \<le> 2 ^ nat (bitlen m)" by (simp add: y_def)
  then have "1 \<le> 2 ^ nat (bitlen m) * x" using assms by (simp add: field_simps)
  then have A: "pow2 (expo x) \<le> x"
    using b1 by (simp add: e pow2_def field_simps)
  have "(of_int (2 ^ nat (bitlen m - 1)) :: rat) \<le> of_int m"
    using lo by (rule rat_of_int_mono)
  moreover have "(of_int (2 ^ nat (bitlen m - 1)) :: rat) = 2 ^ nat (bitlen m - 1)" by simp
  ultimately have "2 ^ nat (bitlen m - 1) < y" using my(1) by linarith
  then have "2 ^ nat (bitlen m - 1) * x < 1" using assms by (simp add: y_def field_simps)
  have B: "x < pow2 (expo x + 1)"
  proof (cases "bitlen m = 1")
    case True
    then show ?thesis using x1 by (simp add: e pow2_def)
  next
    case False
    then have "\<not> 0 \<le> - bitlen m + 1" using b1 by simp
    moreover have "nat (- (- bitlen m + 1)) = nat (bitlen m - 1)" by simp
    ultimately have "pow2 (expo x + 1) = 1 / 2 ^ nat (bitlen m - 1)"
      by (simp only: e pow2_def if_False)
    moreover have "x < 1 / 2 ^ nat (bitlen m - 1)"
      using \<open>2 ^ nat (bitlen m - 1) * x < 1\<close> by (simp add: field_simps)
    ultimately show ?thesis by simp
  qed
  from A B show ?thesis ..
qed

lemma round_even_near: "\<bar>of_int (round_even q) - q\<bar> \<le> 1 / 2"
proof -
  have "of_int \<lfloor>q\<rfloor> \<le> q" "q < of_int \<lfloor>q\<rfloor> + 1" by linarith+
  then show ?thesis by (auto simp: round_even_def Let_def)
qed

lemma round_even_unique:
  assumes "\<bar>q - of_int z\<bar> < 1 / 2"
  shows "round_even q = z"
proof -
  have "\<bar>of_int (round_even q) - q\<bar> \<le> 1 / 2" by (rule round_even_near)
  then have "\<bar>(of_int (round_even q) :: rat) - of_int z\<bar> < 1" using assms by linarith
  then have "\<bar>(of_int (round_even q - z) :: rat)\<bar> < 1" by simp
  then have "\<bar>round_even q - z\<bar> < 1" by (metis of_int_abs of_int_less_1_iff)
  then show ?thesis by simp
qed




lemma expo_less:
  assumes "0 < x" and "x < pow2 b"
  shows "expo x < b"
proof -
  have "pow2 (expo x) \<le> x" using expo_bounds [OF assms(1)] by simp
  then have "pow2 (expo x) < pow2 b" using assms(2) by simp
  then show ?thesis by (rule pow2_less_imp)
qed


lemma fl_exact_below:
  fixes k :: int
  assumes "0 < k" and "of_int k < (2::rat) ^ 53"
    and "0 \<le> d" and "2 * (d * 2 ^ 53) < of_int k - d"
  shows "fl (of_int k - d) = of_int k"
proof -
  define x where "x = of_int k - d"
  have dsmall: "d < of_int k"
  proof -
    have "d \<le> d * 2 ^ 53" using assms(3) by (simp add: mult_le_cancel_left1)
    then show ?thesis using assms(3,4) by linarith
  qed
  then have xpos: "0 < x" by (simp add: x_def)
  have xlt: "x < pow2 53" using assms(2,3) by (simp add: x_def pow2_def)
  have e32: "expo x < 53" using xpos xlt by (rule expo_less)
  define u where "u = pow2 (expo x - 52)"
  define j where "j = nat (52 - expo x)"
  have upos: "0 < u" by (simp add: u_def pow2_pos)
  have uj: "u * 2 ^ j = 1" using e32 by (simp add: u_def j_def pow2_def)
  then have ku: "of_int k / u = of_int (k * 2 ^ j)"
    using upos by (simp add: field_simps)
  have xhi: "x < 2 * pow2 (expo x)"
    using expo_bounds [OF xpos] pow2_add [of "expo x" 1] by (simp add: pow2_def)
  have "pow2 (expo x) = pow2 (expo x - 52 + 52)" by simp
  also have "\<dots> = u * pow2 52" unfolding u_def by (rule pow2_add)
  finally have pe: "pow2 (expo x) = u * 2 ^ 52" by (simp add: pow2_def)
  have "d * 2 ^ 53 < u * 2 ^ 52" using assms(4) xhi pe by (simp add: x_def)
  then have "d < u / 2" by simp
  then have "d / u < 1 / 2" using upos by (simp add: field_simps)
  moreover have "x / u - of_int (k * 2 ^ j) = - (d / u)"
    using ku by (simp add: x_def diff_divide_distrib)
  ultimately have "\<bar>x / u - of_int (k * 2 ^ j)\<bar> < 1 / 2"
    using assms(3) upos by simp
  then have "round_even (x / u) = k * 2 ^ j" by (rule round_even_unique)
  then have "fl x = of_int (k * 2 ^ j) * u"
    using xpos by (simp add: fl_def fl_pos_def u_def Let_def)
  also have "\<dots> = of_int k * (u * 2 ^ j)" by simp
  finally show ?thesis by (simp add: uj x_def)
qed


lemma fl_minus: "fl (- x) = - fl x"
  by (simp add: fl_def)


lemma fl_int_exact:
  fixes n :: int
  assumes "\<bar>n\<bar> < 2 ^ 53"
  shows "fl (of_int n) = of_int n"
proof -
  have pos: "fl (of_int k) = of_int k" if "0 < k" and "k < 2 ^ 53" for k :: int
  proof -
    have "(of_int k :: rat) < of_int (2 ^ 53)" using that(2) by (simp only: of_int_less_iff)
    then have "(of_int k :: rat) < 2 ^ 53" by simp
    then have "fl (of_int k - 0) = of_int k"
      using that(1) by (intro fl_exact_below) simp_all
    then show ?thesis by simp
  qed
  consider "n = 0" | "0 < n" | "n < 0" by linarith
  then show ?thesis
  proof cases
    case 1
    then show ?thesis by (simp add: fl_def)
  next
    case 2
    then show ?thesis using assms by (intro pos) simp_all
  next
    case 3
    then have "fl (of_int (- n)) = of_int (- n)" using assms by (intro pos) simp_all
    then have "fl (- of_int n) = - of_int n" by simp
    then show ?thesis by (simp add: fl_minus)
  qed
qed

lemma to_double_exact: "\<bar>n\<bar> < 2 ^ 53 \<Longrightarrow> to_double n = n"
  by (simp add: to_double_def fl_int_exact)






section \<open>The notification handler\<close>

lemma on_change_cases:
  "on_change myId now payload st =
     (let rec = opt_chain payload ''new''; ts = get_prop rec ''_bench_sent_ts''
      in if truthy rec \<and> get_prop rec ''id'' = JStr myId \<and> truthy ts
         then (case parseInt ts of
                 Inl e \<Rightarrow> st\<lparr>errors := errors st + 1\<rparr>
               | Inr n \<Rightarrow> st\<lparr>received := received st + 1,
                               latencies := latencies st @ [js_sub (Num now) n]\<rparr>)
         else st)"
  by (simp add: on_change_def handler_body_def Let_def split: sum.splits)

lemma truthy_prop_truthy: "truthy (get_prop v k) \<Longrightarrow> truthy v"
  by (cases v) auto

lemmas parseInt_eval =
  parseInt_def parseInt_str_def is_ws_def is_digit_def digit_val_def digits_value_def
  to_double_exact

lemmas show_eval = show_int_def show_nat.simps digit_char_def

text \<open>
  C1 (as amended). An event whose record identity matches the session and whose
  \<open>_bench_sent_ts\<close> field is missing or otherwise falsy (undefined, null, false, 0, the
  empty string) is dropped: no sample is appended and \<open>sent\<close>, \<open>received\<close> and
  \<open>errors\<close> keep their values. Whatever the field holds, \<open>sent\<close> keeps its value, and
  so does \<open>errors\<close> when the field converts to a string (as every string, number and
  boolean does).
\<close>

theorem falsy_timestamp_dropped:
  assumes "rec = opt_chain payload ''new''"
    and "get_prop rec ''id'' = JStr myId"
    and "ts = get_prop rec ''_bench_sent_ts''"
  shows "(\<not> truthy ts \<longrightarrow> on_change myId now payload st = st)
       \<and> sent (on_change myId now payload st) = sent st
       \<and> (to_string ts = Inr s \<longrightarrow> errors (on_change myId now payload st) = errors st)"
  using assms by (simp add: on_change_cases Let_def parseInt_def split: sum.splits)

text \<open>
  The theorem at a matching event that has no timestamp field, and at a matching event
  whose timestamp is the string \<open>abc\<close>.
\<close>

theorem falsy_timestamp_dropped_witness:
  "get_prop (JObj [(''id'', JStr ''client-0''), (''value'', JStr ''v1'')]) ''id'' = JStr ''client-0''
 \<and> \<not> truthy (get_prop (JObj [(''id'', JStr ''client-0''), (''value'', JStr ''v1'')]) ''_bench_sent_ts'')
 \<and> on_change ''client-0'' 1700000000050
     (JObj [(''new'', JObj [(''id'', JStr ''client-0''), (''value'', JStr ''v1'')])])
     \<lparr>sent = 3, received = 2, latencies = [Num 40, Num 60], errors = 1\<rparr>
     = \<lparr>sent = 3, received = 2, latencies = [Num 40, Num 60], errors = 1\<rparr>
 \<and> to_string (JStr ''abc'') = Inr ''abc''
 \<and> errors (on_change ''client-0'' 1700000000050
     (JObj [(''new'', JObj [(''id'', JStr ''client-0''), (''_bench_sent_ts'', JStr ''abc'')])])
     \<lparr>sent = 3, received = 2, latencies = [Num 40, Num 60], errors = 1\<rparr>) = 1"
  using
    falsy_timestamp_dropped
      [where rec = "JObj [(''id'', JStr ''client-0''), (''value'', JStr ''v1'')]"
        and payload = "JObj [(''new'', JObj [(''id'', JStr ''client-0''), (''value'', JStr ''v1'')])]"
        and myId = "''client-0''" and ts = JUndefined and now = 1700000000050
        and s = "''undefined''"
        and st = "\<lparr>sent = 3, received = 2, latencies = [Num 40, Num 60], errors = 1\<rparr>"]
    falsy_timestamp_dropped
      [where rec = "JObj [(''id'', JStr ''client-0''), (''_bench_sent_ts'', JStr ''abc'')]"
        and payload = "JObj [(''new'', JObj [(''id'', JStr ''client-0''), (''_bench_sent_ts'', JStr ''abc'')])]"
        and myId = "''client-0''" and ts = "JStr ''abc''" and now = 1700000000050
        and s = "''abc''"
        and st = "\<lparr>sent = 3, received = 2, latencies = [Num 40, Num 60], errors = 1\<rparr>"]
  by simp

text \<open>
  C1 as stated fails: the matching event below carries the timestamp \<open>abc\<close>, which
  \<open>parseInt\<close> reads as \<open>NaN\<close>, and the handler counts it as received and stores
  the sample \<open>NaN\<close>.
\<close>

theorem unparseable_timestamp_counterexample:
  "get_prop (opt_chain (JObj [(''new'', JObj [(''id'', JStr ''client-0''), (''_bench_sent_ts'', JStr ''abc'')])]) ''new'') ''id''
     = JStr ''client-0''
   \<and> parseInt (get_prop (opt_chain (JObj [(''new'', JObj [(''id'', JStr ''client-0''), (''_bench_sent_ts'', JStr ''abc'')])]) ''new'') ''_bench_sent_ts'')
     = Inr NaN
   \<and> on_change ''client-0'' 1700000000050
        (JObj [(''new'', JObj [(''id'', JStr ''client-0''), (''_bench_sent_ts'', JStr ''abc'')])]) stats0
      = \<lparr>sent = 0, received = 1, latencies = [NaN], errors = 0\<rparr>
   \<and> on_change ''client-0'' 1700000000050
        (JObj [(''new'', JObj [(''id'', JStr ''client-0''), (''_bench_sent_ts'', JStr ''abc'')])]) stats0
      \<noteq> stats0"
  by (simp add: on_change_cases stats0_def parseInt_eval)

text \<open>
  C5. An event whose record identity is not the session's own identity leaves the
  statistics as they are when that session's callback handles it: no sample, and
  \<open>sent\<close>, \<open>received\<close> and \<open>errors\<close> unchanged. (An event without a record, or
  whose record has no \<open>id\<close>, is such an event.)
\<close>

theorem foreign_identity_ignored:
  assumes "get_prop (opt_chain payload ''new'') ''id'' \<noteq> JStr myId"
  shows "on_change myId now payload st = st"
  using assms by (simp add: on_change_cases Let_def)

theorem foreign_identity_ignored_witness:
  "get_prop (opt_chain (JObj [(''new'', JObj [(''id'', JStr ''client-7''), (''_bench_sent_ts'', JStr ''1700000000000'')])]) ''new'') ''id''
     \<noteq> JStr ''client-0''
   \<and> on_change ''client-0'' 1700000000050
        (JObj [(''new'', JObj [(''id'', JStr ''client-7''), (''_bench_sent_ts'', JStr ''1700000000000'')])])
        \<lparr>sent = 3, received = 2, latencies = [Num 40, Num 60], errors = 1\<rparr>
     = \<lparr>sent = 3, received = 2, latencies = [Num 40, Num 60], errors = 1\<rparr>"
  using foreign_identity_ignored
    [of "JObj [(''new'', JObj [(''id'', JStr ''client-7''), (''_bench_sent_ts'', JStr ''1700000000000'')])]"
      "''client-0''" 1700000000050
      "\<lparr>sent = 3, received = 2, latencies = [Num 40, Num 60], errors = 1\<rparr>"]
  by simp

text \<open>
  C8 (as amended). For an event whose record identity is the session's and whose
  timestamp field is truthy (present, and not null, false, 0 or the empty string):
  when \<open>parseInt\<close> returns on the field, the handler adds one to \<open>received\<close> and
  appends exactly one sample, the clock reading minus what \<open>parseInt\<close> returned, and
  changes nothing else; when \<open>parseInt\<close> throws (the field is an object that does not
  convert to a string), the handler adds one to \<open>errors\<close> and changes nothing else.
\<close>

theorem matched_event_recorded:
  assumes "rec = opt_chain payload ''new''"
    and "get_prop rec ''id'' = JStr myId"
    and "truthy (get_prop rec ''_bench_sent_ts'')"
  shows "(parseInt (get_prop rec ''_bench_sent_ts'') = Inr n \<longrightarrow>
            on_change myId now payload st =
              st\<lparr>received := received st + 1,
                 latencies := latencies st @ [js_sub (Num now) n]\<rparr>)
       \<and> (parseInt (get_prop rec ''_bench_sent_ts'') = Inl e \<longrightarrow>
            on_change myId now payload st = st\<lparr>errors := errors st + 1\<rparr>)"
proof -
  have "truthy rec"
    using assms(3) by (rule truthy_prop_truthy)
  then show ?thesis
    using assms by (simp add: on_change_cases Let_def)
qed

text \<open>
  The theorem at a matching event with a timestamp written 50 ms before the clock
  reading, and at a matching event whose timestamp is the object \<open>{"toString": "x"}\<close>.
\<close>

theorem matched_event_recorded_witness:
  "on_change ''client-0'' 1700000000050
     (JObj [(''new'', JObj [(''id'', JStr ''client-0''), (''_bench_sent_ts'', JStr ''1700000000000'')])])
     \<lparr>sent = 3, received = 2, latencies = [Num 40, Num 60], errors = 1\<rparr>
   = \<lparr>sent = 3, received = 3, latencies = [Num 40, Num 60, Num 50], errors = 1\<rparr>
 \<and> on_change ''client-0'' 1700000000050
     (JObj [(''new'', JObj [(''id'', JStr ''client-0''),
                            (''_bench_sent_ts'', JObj [(''toString'', JStr ''x'')])])])
     \<lparr>sent = 3, received = 2, latencies = [Num 40, Num 60], errors = 1\<rparr>
   = \<lparr>sent = 3, received = 2, latencies = [Num 40, Num 60], errors = 2\<rparr>"
  using
    matched_event_recorded
      [where rec = "JObj [(''id'', JStr ''client-0''), (''_bench_sent_ts'', JStr ''1700000000000'')]"
        and payload = "JObj [(''new'', JObj [(''id'', JStr ''client-0''), (''_bench_sent_ts'', JStr ''1700000000000'')])]"
        and myId = "''client-0''" and now = 1700000000050
        and n = "Num 1700000000000" and e = TypeError
        and st = "\<lparr>sent = 3, received = 2, latencies = [Num 40, Num 60], errors = 1\<rparr>"]
    matched_event_recorded
      [where rec = "JObj [(''id'', JStr ''client-0''), (''_bench_sent_ts'', JObj [(''toString'', JStr ''x'')])]"
        and payload = "JObj [(''new'', JObj [(''id'', JStr ''client-0''),
                            (''_bench_sent_ts'', JObj [(''toString'', JStr ''x'')])])]"
        and myId = "''client-0''" and now = 1700000000050
        and n = "Num 0" and e = TypeError
        and st = "\<lparr>sent = 3, received = 2, latencies = [Num 40, Num 60], errors = 1\<rparr>"]
  by (simp add: parseInt_eval)

text \<open>
  C8 as stated fails: the matching event below carries the timestamp 0, a number that
  \<open>parseInt\<close> reads as 0, and the handler records nothing, where the claim has the
  sample 1700000000050 and \<open>received = 1\<close>.
\<close>

theorem zero_timestamp_counterexample:
  "get_prop (opt_chain (JObj [(''new'', JObj [(''id'', JStr ''client-0''), (''_bench_sent_ts'', JNum (Num 0))])]) ''new'') ''id''
     = JStr ''client-0''
   \<and> get_prop (opt_chain (JObj [(''new'', JObj [(''id'', JStr ''client-0''), (''_bench_sent_ts'', JNum (Num 0))])]) ''new'') ''_bench_sent_ts''
     = JNum (Num 0)
   \<and> parseInt (JNum (Num 0)) = Inr (Num 0)
   \<and> js_sub (Num 1700000000050) (Num 0) = Num 1700000000050
   \<and> on_change ''client-0'' 1700000000050
        (JObj [(''new'', JObj [(''id'', JStr ''client-0''), (''_bench_sent_ts'', JNum (Num 0))])]) stats0
      = \<lparr>sent = 0, received = 0, latencies = [], errors = 0\<rparr>
   \<and> on_change ''client-0'' 1700000000050
        (JObj [(''new'', JObj [(''id'', JStr ''client-0''), (''_bench_sent_ts'', JNum (Num 0))])]) stats0
      \<noteq> \<lparr>sent = 0, received = 1, latencies = [Num 1700000000050], errors = 0\<rparr>"
  by (simp add: on_change_cases stats0_def parseInt_eval show_eval)

section \<open>Writes, ticks and runs\<close>

lemma write_step_simps:
  "write_step Resolved st = st\<lparr>sent := sent st + 1\<rparr>"
  "write_step ResolvedWithError st = st\<lparr>sent := sent st + 1\<rparr>"
  "write_step Rejected st = st\<lparr>errors := errors st + 1\<rparr>"
  by (simp_all add: write_step_def write_body_def await_upsert_def)

lemma init_step_simps:
  "init_step Resolved st = st"
  "init_step ResolvedWithError st = st"
  "init_step Rejected st = st\<lparr>errors := errors st + 1\<rparr>"
  by (simp_all add: init_step_def await_upsert_def)

lemma tick_loop_split:
  assumes "i < n"
  shows "tick_loop n ocs st =
           fold (\<lambda>j. write_step (ocs j)) [Suc i..<n] (write_step (ocs i) (tick_loop i ocs st))"
proof -
  have "[0..<n] = [0..<i] @ i # [Suc i..<n]"
    using assms
    by (metis upt_conv_Cons upt_add_eq_append le_add_diff_inverse less_imp_le_nat zero_le)
  then show ?thesis by (simp add: tick_loop_def)
qed

text \<open>
  A write whose promise rejects is counted: that iteration adds one to \<open>errors\<close>,
  leaves \<open>sent\<close> alone, and the loop goes on with the sessions after it.
\<close>

lemma rejected_write_counted:
  assumes "i < n" and "ocs i = Rejected"
  shows "write_step (ocs i) st = st\<lparr>errors := errors st + 1\<rparr>
       \<and> sent (write_step (ocs i) st) = sent st
       \<and> tick_loop n ocs st0 =
           fold (\<lambda>j. write_step (ocs j)) [Suc i..<n]
             ((tick_loop i ocs st0)\<lparr>errors := errors (tick_loop i ocs st0) + 1\<rparr>)"
  using assms tick_loop_split [of i n ocs st0] by (simp add: write_step_simps)

text \<open>
  C6. The claim holds for a write whose promise rejects, and fails for a write that
  fails with a resolved promise: the awaited result, whose \<open>error\<close> field is set, is
  not read, \<open>sent\<close> is incremented and \<open>errors\<close> is not. In a tick of three sessions
  whose writes all fail this way, \<open>sent\<close> becomes 3 and \<open>errors\<close> stays 0.
\<close>

theorem resolved_failure_counted_as_sent:
  "await_upsert ResolvedWithError = Inr True
 \<and> write_step ResolvedWithError stats0 = \<lparr>sent = 1, received = 0, latencies = [], errors = 0\<rparr>
 \<and> tick_loop 3 (\<lambda>j. ResolvedWithError) stats0
     = \<lparr>sent = 3, received = 0, latencies = [], errors = 0\<rparr>"
  by (simp add: await_upsert_def tick_loop_def stats0_def write_step_simps upt_rec)

text \<open>
  C7 (as amended). A tick prints an immediate summary exactly when, at the end of its
  batch, \<open>sent\<close> is a multiple of \<open>5 \<times> clientCount\<close> (zero included) and the client
  count is not zero; otherwise it prints nothing.
\<close>

theorem volume_report_rule:
  "(snd (tick n ocs st) = [printSummary (fst (tick n ocs st))]
      \<longleftrightarrow> 0 < n \<and> sent (fst (tick n ocs st)) mod (5 * n) = 0)
 \<and> (snd (tick n ocs st) = [] \<longleftrightarrow> \<not> (0 < n \<and> sent (fst (tick n ocs st)) mod (5 * n) = 0))"
  by (simp add: tick_def Let_def report_due_def mult.commute)

text \<open>
  C7 as stated fails: with three clients and \<open>sent = 14\<close>, a tick of three successful
  writes takes \<open>sent\<close> from 14 to 17, across the multiple 15, and prints nothing.
\<close>

theorem crossing_counterexample:
  "sent (stats0\<lparr>sent := 14\<rparr>) < 1 * (5 * 3)
 \<and> 1 * (5 * 3) \<le> sent (fst (tick 3 (\<lambda>i. Resolved) (stats0\<lparr>sent := 14\<rparr>)))
 \<and> snd (tick 3 (\<lambda>i. Resolved) (stats0\<lparr>sent := 14\<rparr>)) = []"
  by (simp add: tick_def tick_loop_def Let_def report_due_def stats0_def write_step_simps upt_rec)

lemma step_balanced:
  assumes "balanced st"
  shows "balanced (step x st)"
proof (cases x)
  case (Notification myId now payload)
  then show ?thesis
    using assms by (simp add: balanced_def on_change_cases Let_def split: sum.splits)
next
  case (InitialUpsert oc)
  then show ?thesis
    using assms by (cases oc) (simp_all add: balanced_def init_step_simps)
next
  case (PeriodicUpsert oc)
  then show ?thesis
    using assms by (cases oc) (simp_all add: balanced_def write_step_simps)
next
  case Summary
  then show ?thesis using assms by simp
qed

lemma fold_step_balanced: "balanced st \<Longrightarrow> balanced (fold step ops st)"
  by (induction ops arbitrary: st) (simp_all add: step_balanced)

text \<open>
  C9. After any sequence of operations of the harness from the initial statistics,
  \<open>received\<close> is the number of stored samples.
\<close>

theorem received_counts_samples:
  "received (exec ops) = length (latencies (exec ops))"
proof -
  have "balanced stats0" by (simp add: balanced_def stats0_def)
  then have "balanced (exec ops)" unfolding exec_def by (rule fold_step_balanced)
  then show ?thesis by (simp add: balanced_def)
qed

section \<open>The client count\<close>

text \<open>
  C3 (as amended). An omitted (or empty) client-count argument gives 1000. Any other
  argument is read by \<open>parseInt\<close>: no default applies, and an argument without a leading
  integer gives \<open>NaN\<close>.
\<close>

theorem client_count_default:
  "CLIENT_COUNT JUndefined = Inr (Num 1000)
 \<and> CLIENT_COUNT (JStr []) = Inr (Num 1000)
 \<and> (s \<noteq> [] \<longrightarrow> CLIENT_COUNT (JStr s) = Inr (parseInt_str s))"
  by (simp add: CLIENT_COUNT_def js_or_def parseInt_eval)

theorem client_count_default_witness:
  "''250'' \<noteq> [] \<and> CLIENT_COUNT (JStr ''250'') = Inr (Num 250)"
  using client_count_default [of "''250''"]
  by (simp add: parseInt_eval)

text \<open>C3 as stated fails: the non-numeric argument \<open>abc\<close> gives \<open>NaN\<close>, not 1000.\<close>

theorem client_count_counterexample:
  "CLIENT_COUNT (JStr ''abc'') = Inr NaN \<and> CLIENT_COUNT (JStr ''abc'') \<noteq> Inr (Num 1000)"
  by (simp add: CLIENT_COUNT_def js_or_def parseInt_eval)

section \<open>Percentile and summary line\<close>



text \<open>With no samples, the average, the minimum and the maximum show the marker \<open>-\<close>.\<close>

lemma empty_summary_markers:
  assumes "latencies st = []"
  shows "summary_avg (latencies st) = Txt ''-''
       \<and> summary_min (latencies st) = Txt ''-''
       \<and> summary_max (latencies st) = Txt ''-''"
  using assms by (simp add: summary_avg_def summary_min_def summary_max_def)

text \<open>
  C2. The claim holds for the average, the minimum and the maximum, and fails for the
  p95: with no samples \<open>pct\<close> returns 0, and \<open>printSummary\<close>, which guards the
  other three fields with the marker, prints that 0. On the initial statistics the line
  reads \<open>avg:-ms min:-ms max:-ms p95:0ms\<close>.
\<close>

theorem empty_summary_p95_zero:
  "latencies stats0 = []
 \<and> summary_avg (latencies stats0) = Txt ''-''
 \<and> summary_min (latencies stats0) = Txt ''-''
 \<and> summary_max (latencies stats0) = Txt ''-''
 \<and> summary_p95 (latencies stats0) = Nmb (Num 0)
 \<and> summary_p95 (latencies stats0) \<noteq> Txt ''-''
 \<and> printSummary stats0 = ''SENT:0 RECV:0 ERR:0 | avg:-ms min:-ms max:-ms p95:0ms samples:0''"
  by (simp add: summary_avg_def summary_min_def summary_max_def summary_p95_def pct_def
      printSummary_def Let_def show_int_def show_nat.simps digit_char_def stats0_def)

text \<open>
  C10. \<open>pct\<close> returns on every allocated array and every percentile, with the value of
  the function above; afterwards the array holds the same elements in the same order, as
  does every array that existed before the call.
\<close>

theorem pct_keeps_array:
  assumes "arr < length h"
  shows "\<exists>v h'. pct_heap h arr p = Some (v, h') \<and> v = pct (h ! arr) p
           \<and> h' ! arr = h ! arr \<and> take (length h) h' = h"
  using assms
  by (simp add: pct_heap_def pct_def Array_from_def sort_in_place_def Let_def nth_append)

theorem pct_keeps_array_witness:
  "(0::nat) < length [[Num 30, Num 10, Num 20]]
 \<and> (\<exists>v h'. pct_heap [[Num 30, Num 10, Num 20]] 0 95 = Some (v, h')
       \<and> h' ! 0 = [Num 30, Num 10, Num 20])"
  using pct_keeps_array [of 0 "[[Num 30, Num 10, Num 20]]" 95]
  by auto

end
